theory Spec2Isabelle
  imports Complex_Main "HOL-Library.Log_Nat"
begin

section \<open>Scalars and vectors\<close>

text \<open>
  The client \<^verbatim>\<open>main.cpp\<close> works with C++ \<^verbatim>\<open>double\<close>. Where it only stores and
  moves numbers (the configuration constants, the parameter bundle, the tables of
  variables) a double is modelled by the real number it denotes. Where it computes (the
  point of interest, the screen point, the evaluation loop) the arithmetic is the one of
  IEEE 754 binary64, modelled in the next section: rounding to nearest with ties to even,
  overflow to an infinity, gradual underflow, signed zeros and NaN.

  \<^verbatim>\<open>Vec3\<close> and \<^verbatim>\<open>Vec2\<close> come from \<^verbatim>\<open>Utils.hpp\<close>; the client builds them with
  \<^verbatim>\<open>make_vec3\<close> and \<^verbatim>\<open>make_vec2\<close>, reads components with \<^verbatim>\<open>v[0]\<close>,
  \<^verbatim>\<open>v[1]\<close>, \<^verbatim>\<open>v[2]\<close> and uses the componentwise operators. \<open>Vec3\<close> is the vector
  of real numbers, \<open>Vec3d\<close> below the same vector with the arithmetic of doubles.
\<close>

datatype Vec3 = make_vec3 (at0: real) (at1: real) (at2: real)

definition vec3_add :: "Vec3 \<Rightarrow> Vec3 \<Rightarrow> Vec3" where
  "vec3_add a b = make_vec3 (at0 a + at0 b) (at1 a + at1 b) (at2 a + at2 b)"

definition vec3_neg :: "Vec3 \<Rightarrow> Vec3" where
  "vec3_neg a = make_vec3 (- at0 a) (- at1 a) (- at2 a)"


section \<open>IEEE doubles\<close>

text \<open>
  A double is a NaN, an infinity with its sign, or a finite number with its sign
  (\<open>True\<close> for minus) and its magnitude, so that the two zeros are \<open>Finite False 0\<close>
  and \<open>Finite True 0\<close>. The sign and the payload of a NaN are not modelled.
\<close>

datatype double = NaN | Infinity bool | Finite bool real

definition is_finite :: "double \<Rightarrow> bool" where
  "is_finite a = (case a of Finite s m \<Rightarrow> True | _ \<Rightarrow> False)"

definition is_nan :: "double \<Rightarrow> bool" where
  "is_nan a = (case a of NaN \<Rightarrow> True | _ \<Rightarrow> False)"

definition is_zero :: "double \<Rightarrow> bool" where
  "is_zero a = (case a of Finite s m \<Rightarrow> m = 0 | _ \<Rightarrow> False)"

text \<open>The real number that a finite double denotes.\<close>

definition valof :: "double \<Rightarrow> real" where
  "valof a = (case a of Finite s m \<Rightarrow> (if s then - m else m) | _ \<Rightarrow> 0)"

text \<open>
  The binary exponent of a positive real: the integer \<open>e\<close> with
  \<open>2^e \<le> x < 2^(e+1)\<close>, computed from the bit length of an integer.
\<close>

definition expo :: "real \<Rightarrow> int" where
  "expo x = (if 1 \<le> x then bitlen \<lfloor>x\<rfloor> - 1 else - bitlen (\<lceil>1 / x\<rceil> - 1))"

definition round_half_even :: "real \<Rightarrow> int" where
  "round_half_even r =
     (let f = \<lfloor>r\<rfloor>; d = r - of_int f
      in if d < 1 / 2 then f else if 1 / 2 < d then f + 1 else if even f then f else f + 1)"

text \<open>
  Rounding of a magnitude to the nearest number with 53 significant bits, ties to even.
  Below \<open>2^-1022\<close> the spacing stays \<open>2^-1074\<close> (subnormal numbers). A result with an
  exponent above 1023 overflows to the infinity of the given sign.
\<close>

definition rne :: "real \<Rightarrow> real" where
  "rne x =
     (if x \<le> 0 then 0
      else (let q = max (expo x) (- 1022) - 52
            in of_int (round_half_even (x / 2 powi q)) * 2 powi q))"

definition round_mag :: "bool \<Rightarrow> real \<Rightarrow> double" where
  "round_mag s x = (let m = rne x in if 0 < m \<and> 1024 \<le> expo m then Infinity s else Finite s m)"

text \<open>The double that a decimal literal or an integer of the program is converted to.\<close>

definition double_of_real :: "real \<Rightarrow> double" where
  "double_of_real x = round_mag (x < 0) \<bar>x\<bar>"

definition dneg :: "double \<Rightarrow> double" where
  "dneg a = (case a of NaN \<Rightarrow> NaN | Infinity s \<Rightarrow> Infinity (\<not> s) | Finite s m \<Rightarrow> Finite (\<not> s) m)"

text \<open>
  The sum of two finite doubles is the rounded exact sum; an exact sum of zero is
  \<open>+0\<close>, except that \<open>-0 + -0\<close> is \<open>-0\<close>. Infinities of opposite signs add up to NaN.
\<close>

fun dadd :: "double \<Rightarrow> double \<Rightarrow> double" where
  "dadd NaN b = NaN"
| "dadd a NaN = NaN"
| "dadd (Infinity s) (Infinity t) = (if s = t then Infinity s else NaN)"
| "dadd (Infinity s) (Finite t n) = Infinity s"
| "dadd (Finite s m) (Infinity t) = Infinity t"
| "dadd (Finite s m) (Finite t n) =
     (let v = valof (Finite s m) + valof (Finite t n)
      in if v = 0 then Finite (s \<and> t) 0 else round_mag (v < 0) \<bar>v\<bar>)"

definition dsub :: "double \<Rightarrow> double \<Rightarrow> double" where
  "dsub a b = dadd a (dneg b)"

text \<open>The sign of a product or a quotient is the exclusive or of the signs.\<close>

fun dmul :: "double \<Rightarrow> double \<Rightarrow> double" where
  "dmul NaN b = NaN"
| "dmul a NaN = NaN"
| "dmul (Infinity s) (Infinity t) = Infinity (s \<noteq> t)"
| "dmul (Infinity s) (Finite t n) = (if n = 0 then NaN else Infinity (s \<noteq> t))"
| "dmul (Finite s m) (Infinity t) = (if m = 0 then NaN else Infinity (s \<noteq> t))"
| "dmul (Finite s m) (Finite t n) = round_mag (s \<noteq> t) (m * n)"

text \<open>
  Division does not trap: a non-zero finite number or an infinity divided by a zero is
  an infinity, \<open>0 / 0\<close> and \<open>inf / inf\<close> are NaN, a finite number divided by an
  infinity is a zero.
\<close>

fun ddiv :: "double \<Rightarrow> double \<Rightarrow> double" where
  "ddiv NaN b = NaN"
| "ddiv a NaN = NaN"
| "ddiv (Infinity s) (Infinity t) = NaN"
| "ddiv (Infinity s) (Finite t n) = Infinity (s \<noteq> t)"
| "ddiv (Finite s m) (Infinity t) = Finite (s \<noteq> t) 0"
| "ddiv (Finite s m) (Finite t n) =
     (if n = 0 then (if m = 0 then NaN else Infinity (s \<noteq> t))
      else round_mag (s \<noteq> t) (m / n))"

text \<open>
  The square root is correctly rounded. It is NaN for a negative number and for the
  negative infinity, and the zero itself for a zero of either sign.
\<close>

definition dsqrt :: "double \<Rightarrow> double" where
  "dsqrt a =
     (case a of
        NaN \<Rightarrow> NaN
      | Infinity s \<Rightarrow> if s then NaN else Infinity False
      | Finite s m \<Rightarrow>
          if m = 0 then Finite s 0 else if s then NaN else Finite False (rne (sqrt m)))"

text \<open>
  A real number is representable when it is the value of a finite double: rounding
  leaves its magnitude as it is and does not overflow. \<open>finite_double\<close> holds of the
  finite doubles proper: the magnitude is not negative and is representable.
\<close>

definition representable :: "real \<Rightarrow> bool" where
  "representable x = (rne \<bar>x\<bar> = \<bar>x\<bar> \<and> \<not> (0 < \<bar>x\<bar> \<and> 1024 \<le> expo \<bar>x\<bar>))"

definition finite_double :: "double \<Rightarrow> bool" where
  "finite_double a = (case a of Finite s m \<Rightarrow> 0 \<le> m \<and> representable m | _ \<Rightarrow> False)"

section \<open>Vectors of doubles\<close>

datatype Vec3d = make_vec3d (dat0: double) (dat1: double) (dat2: double)

datatype Vec2 = make_vec2 (at0': double) (at1': double)

definition vec3d_add :: "Vec3d \<Rightarrow> Vec3d \<Rightarrow> Vec3d" where
  "vec3d_add a b = make_vec3d (dadd (dat0 a) (dat0 b)) (dadd (dat1 a) (dat1 b)) (dadd (dat2 a) (dat2 b))"

definition vec3d_sub :: "Vec3d \<Rightarrow> Vec3d \<Rightarrow> Vec3d" where
  "vec3d_sub a b = make_vec3d (dsub (dat0 a) (dat0 b)) (dsub (dat1 a) (dat1 b)) (dsub (dat2 a) (dat2 b))"

definition vec3d_scale :: "double \<Rightarrow> Vec3d \<Rightarrow> Vec3d" where
  "vec3d_scale k a = make_vec3d (dmul k (dat0 a)) (dmul k (dat1 a)) (dmul k (dat2 a))"

definition vec2_sub :: "Vec2 \<Rightarrow> Vec2 \<Rightarrow> Vec2" where
  "vec2_sub a b = make_vec2 (dsub (at0' a) (at0' b)) (dsub (at1' a) (at1' b))"

text \<open>
  Modelled from the spec: \<^verbatim>\<open>length\<close> comes from \<^verbatim>\<open>Utils.hpp\<close>, which is missing
  from the sources. The discrepancy between an estimate and its target is the "Euclidean
  distance": the square root of the sum of the squares, each operation rounded.
\<close>

definition length_vec2 :: "Vec2 \<Rightarrow> double" where
  "length_vec2 a = dsqrt (dadd (dmul (at0' a) (at0' a)) (dmul (at1' a) (at1' a)))"

text \<open>
  The vector of doubles that a vector of configuration constants is, and the vector of
  real numbers that a vector of finite doubles denotes.
\<close>

definition double_vec3 :: "Vec3 \<Rightarrow> Vec3d" where
  "double_vec3 a = make_vec3d (double_of_real (at0 a)) (double_of_real (at1 a)) (double_of_real (at2 a))"



definition has_nan :: "Vec3d \<Rightarrow> bool" where
  "has_nan a = (is_nan (dat0 a) \<or> is_nan (dat1 a) \<or> is_nan (dat2 a))"

section \<open>Point of interest and screen point\<close>

text \<open>
  \<^verbatim>\<open>const double kg = (z_shift - cornea_center[2]) / visual_axis_unit_vector[2];\<close>
  \<^verbatim>\<open>return cornea_center + kg * visual_axis_unit_vector;\<close>
  The function has no branch: the division is carried out whatever the divisor is, and
  the vector is returned whatever \<^verbatim>\<open>kg\<close> is.
\<close>

definition calculate_point_of_interest :: "Vec3d \<Rightarrow> Vec3d \<Rightarrow> double \<Rightarrow> Vec3d" where
  "calculate_point_of_interest cornea_center visual_axis_unit_vector z_shift =
     (let kg = ddiv (dsub z_shift (dat2 cornea_center)) (dat2 visual_axis_unit_vector)
      in vec3d_add cornea_center (vec3d_scale kg visual_axis_unit_vector))"


text \<open>
  \<^verbatim>\<open>return make_vec2(poi[0] / screen_pixel_size_x, -poi[1] / screen_pixel_size_y);\<close>
\<close>

definition estimate_screen_point :: "Vec3d \<Rightarrow> double \<Rightarrow> double \<Rightarrow> Vec2" where
  "estimate_screen_point poi screen_pixel_size_x screen_pixel_size_y =
     make_vec2 (ddiv (dat0 poi) screen_pixel_size_x) (ddiv (dneg (dat1 poi)) screen_pixel_size_y)"


section \<open>Camera model\<close>

datatype Mat3x3 = make_mat3x3 (row0: Vec3) (row1: Vec3) (row2: Vec3)

text \<open>
  The client assigns the public members \<^verbatim>\<open>principal_point_x\<close>, ...,
  \<^verbatim>\<open>position\<close> of \<^verbatim>\<open>PinholeCameraModel\<close> directly and reaches the orientation
  only through \<^verbatim>\<open>set_camera_angles\<close>, \<^verbatim>\<open>set_camera_angle_y\<close>,
  \<^verbatim>\<open>set_camera_angle_z\<close>, \<^verbatim>\<open>camera_angle_y()\<close>, \<^verbatim>\<open>camera_angle_z()\<close> and
  \<^verbatim>\<open>rotation_matrix()\<close>. The class itself is declared in a header that is not part
  of the sources, so the orientation state is the one the specification describes: the
  three angles as they were set, and a cached rotation matrix.
\<close>

record PinholeCameraModel =
  principal_point_x :: real
  principal_point_y :: real
  pixel_size_cm_x :: real
  pixel_size_cm_y :: real
  effective_focal_length_cm :: real
  position :: Vec3
  angle_x :: real
  angle_y :: real
  angle_z :: real
  cached_rotation :: Mat3x3

text \<open>
  Modelled from the spec: the member functions of \<^verbatim>\<open>PinholeCameraModel\<close> are missing
  from the sources. "Angle setters recompute the cached rotation matrix; getters return
  the angles that were set (not decomposed from the matrix)". How the angles are composed
  into the matrix is not given, so the composition is the parameter \<open>rot\<close> of every
  setter.
\<close>

definition set_camera_angles ::
  "(real \<Rightarrow> real \<Rightarrow> real \<Rightarrow> Mat3x3) \<Rightarrow> real \<Rightarrow> real \<Rightarrow> real \<Rightarrow> PinholeCameraModel \<Rightarrow> PinholeCameraModel" where
  "set_camera_angles rot x y z cam =
     cam\<lparr>angle_x := x, angle_y := y, angle_z := z, cached_rotation := rot x y z\<rparr>"

definition set_camera_angle_y ::
  "(real \<Rightarrow> real \<Rightarrow> real \<Rightarrow> Mat3x3) \<Rightarrow> real \<Rightarrow> PinholeCameraModel \<Rightarrow> PinholeCameraModel" where
  "set_camera_angle_y rot y cam =
     cam\<lparr>angle_y := y, cached_rotation := rot (angle_x cam) y (angle_z cam)\<rparr>"

definition set_camera_angle_z ::
  "(real \<Rightarrow> real \<Rightarrow> real \<Rightarrow> Mat3x3) \<Rightarrow> real \<Rightarrow> PinholeCameraModel \<Rightarrow> PinholeCameraModel" where
  "set_camera_angle_z rot z cam =
     cam\<lparr>angle_z := z, cached_rotation := rot (angle_x cam) (angle_y cam) z\<rparr>"

definition camera_angle_y :: "PinholeCameraModel \<Rightarrow> real" where
  "camera_angle_y cam = angle_y cam"

definition camera_angle_z :: "PinholeCameraModel \<Rightarrow> real" where
  "camera_angle_z cam = angle_z cam"

definition rotation_matrix :: "PinholeCameraModel \<Rightarrow> Mat3x3" where
  "rotation_matrix cam = cached_rotation cam"

text \<open>
  The invariant of the data model: "angle accessors and the matrix must stay consistent".
\<close>

definition angles_consistent :: "(real \<Rightarrow> real \<Rightarrow> real \<Rightarrow> Mat3x3) \<Rightarrow> PinholeCameraModel \<Rightarrow> bool" where
  "angles_consistent rot cam =
     (rotation_matrix cam = rot (angle_x cam) (camera_angle_y cam) (camera_angle_z cam))"

text \<open>
  Modelled from the spec: one concrete composition of "two or three rotation angles,
  composed into a rotation matrix", the product of the elemental rotations about the x-,
  y- and z-axis. It is used for concrete runs only; every general statement below holds
  for an arbitrary composition \<open>rot\<close>.
\<close>

definition mat_vec_row :: "Vec3 \<Rightarrow> Mat3x3 \<Rightarrow> Vec3" where
  "mat_vec_row r m =
     make_vec3 (at0 r * at0 (row0 m) + at1 r * at0 (row1 m) + at2 r * at0 (row2 m))
               (at0 r * at1 (row0 m) + at1 r * at1 (row1 m) + at2 r * at1 (row2 m))
               (at0 r * at2 (row0 m) + at1 r * at2 (row1 m) + at2 r * at2 (row2 m))"

definition mat_mul :: "Mat3x3 \<Rightarrow> Mat3x3 \<Rightarrow> Mat3x3" where
  "mat_mul a b = make_mat3x3 (mat_vec_row (row0 a) b) (mat_vec_row (row1 a) b) (mat_vec_row (row2 a) b)"

definition rotation_about_x :: "real \<Rightarrow> Mat3x3" where
  "rotation_about_x a =
     make_mat3x3 (make_vec3 1 0 0) (make_vec3 0 (cos a) (- sin a)) (make_vec3 0 (sin a) (cos a))"

definition rotation_about_y :: "real \<Rightarrow> Mat3x3" where
  "rotation_about_y a =
     make_mat3x3 (make_vec3 (cos a) 0 (sin a)) (make_vec3 0 1 0) (make_vec3 (- sin a) 0 (cos a))"

definition rotation_about_z :: "real \<Rightarrow> Mat3x3" where
  "rotation_about_z a =
     make_mat3x3 (make_vec3 (cos a) (- sin a) 0) (make_vec3 (sin a) (cos a) 0) (make_vec3 0 0 1)"

definition calculate_rotation_matrix :: "real \<Rightarrow> real \<Rightarrow> real \<Rightarrow> Mat3x3" where
  "calculate_rotation_matrix x y z =
     mat_mul (rotation_about_z z) (mat_mul (rotation_about_y y) (rotation_about_x x))"

section \<open>Parameter bundle and estimation result\<close>

text \<open>
  \<^verbatim>\<open>EyeAndCameraParameters\<close> and \<^verbatim>\<open>DefaultGazeEstimationResult\<close> with the members
  the client reads and writes.
\<close>

record EyeAndCameraParameters =
  alpha :: real
  beta :: real
  R :: real
  K :: real
  n1 :: real
  n2 :: real
  D :: real
  cameras :: "PinholeCameraModel list"
  light_positions :: "Vec3 list"
  distance_to_camera_estimate :: real

record DefaultGazeEstimationResult =
  center_of_cornea :: Vec3d
  visual_axis :: Vec3d

section \<open>Memory: vectors of doubles and tables of pointers\<close>

text \<open>
  The optimisation backend hands the variables over as \<^verbatim>\<open>double const* const*\<close>, and
  \<^verbatim>\<open>vecvec_to_pointer_pointer\<close> builds such a table from a vector of vectors. Both
  are about who owns which buffer, so the heap is explicit: a buffer is the storage of a
  \<^verbatim>\<open>std::vector<double>\<close> or of a \<^verbatim>\<open>std::vector<double*>\<close>, a pointer is the
  address of the first element of a buffer (the client takes no other address), and
  \<open>live\<close> holds the buffers that are allocated. Reading through a pointer whose buffer
  is not allocated, or beyond the end of a buffer, is undefined behaviour in C++ and a
  \<open>fault\<close> here.
\<close>

type_synonym addr = nat

datatype buffer = Doubles "real list" | Pointers "addr list"

datatype fault = DanglingPointer | OutOfBounds

record heap =
  live :: "addr \<rightharpoonup> buffer"
  next_free :: addr

definition bind_result :: "fault + 'a \<Rightarrow> ('a \<Rightarrow> fault + 'b) \<Rightarrow> fault + 'b" where
  "bind_result r f = (case r of Inl e \<Rightarrow> Inl e | Inr v \<Rightarrow> f v)"

definition allocate :: "buffer \<Rightarrow> heap \<Rightarrow> heap \<times> addr" where
  "allocate b h = (h\<lparr>live := (live h)(next_free h \<mapsto> b), next_free := Suc (next_free h)\<rparr>, next_free h)"

definition deallocate :: "addr \<Rightarrow> heap \<Rightarrow> heap" where
  "deallocate p h = h\<lparr>live := (live h)(p := None)\<rparr>"

definition read_pointer :: "heap \<Rightarrow> addr \<Rightarrow> nat \<Rightarrow> fault + addr" where
  "read_pointer h p i =
     (case live h p of
        Some (Pointers ps) \<Rightarrow> if i < length ps then Inr (ps ! i) else Inl OutOfBounds
      | _ \<Rightarrow> Inl DanglingPointer)"

definition read_double :: "heap \<Rightarrow> addr \<Rightarrow> nat \<Rightarrow> fault + real" where
  "read_double h p j =
     (case live h p of
        Some (Doubles xs) \<Rightarrow> if j < length xs then Inr (xs ! j) else Inl OutOfBounds
      | _ \<Rightarrow> Inl DanglingPointer)"

text \<open>\<^verbatim>\<open>variables[i][j]\<close> for \<^verbatim>\<open>double const* const* variables\<close>.\<close>

definition read_variable :: "heap \<Rightarrow> addr \<Rightarrow> nat \<Rightarrow> nat \<Rightarrow> fault + real" where
  "read_variable h variables i j =
     bind_result (read_pointer h variables i) (\<lambda>row. read_double h row j)"

text \<open>
  A \<^verbatim>\<open>std::vector<std::vector<double>>\<close> is the list of the buffers of its rows.
  \<open>rows_of\<close> reads such a vector back as a table of numbers; \<open>table_of\<close> does the same
  through a pointer table. Both are used to state properties, not by the program.
\<close>

definition row_of :: "heap \<Rightarrow> addr \<Rightarrow> real list option" where
  "row_of h p = (case live h p of Some (Doubles xs) \<Rightarrow> Some xs | _ \<Rightarrow> None)"

definition rows_of :: "heap \<Rightarrow> addr list \<Rightarrow> real list list option" where
  "rows_of h a = those (map (row_of h) a)"

definition table_of :: "heap \<Rightarrow> addr \<Rightarrow> real list list option" where
  "table_of h variables =
     (case live h variables of Some (Pointers ps) \<Rightarrow> rows_of h ps | _ \<Rightarrow> None)"

text \<open>
  \<^verbatim>\<open>&a[i][0]\<close>: the address of the first element of row \<open>i\<close>. Indexing an empty
  vector is undefined behaviour.
\<close>

definition first_element :: "heap \<Rightarrow> addr \<Rightarrow> fault + addr" where
  "first_element h row =
     (case live h row of
        Some (Doubles xs) \<Rightarrow> if xs = [] then Inl OutOfBounds else Inr row
      | _ \<Rightarrow> Inl DanglingPointer)"

text \<open>
  The loop \<^verbatim>\<open>for (i = 0; i < a.size(); i++) tmp.push_back(&a[i][0]);\<close>: the contents
  of the local vector \<^verbatim>\<open>tmp\<close> after the rows from \<open>a\<close> on have been visited.
\<close>

fun push_back_pointers :: "heap \<Rightarrow> addr list \<Rightarrow> addr list \<Rightarrow> fault + addr list" where
  "push_back_pointers h tmp [] = Inr tmp"
| "push_back_pointers h tmp (row # a) =
     (case first_element h row of
        Inl e \<Rightarrow> Inl e
      | Inr p \<Rightarrow> push_back_pointers h (tmp @ [p]) a)"

text \<open>
  \<^verbatim>\<open>std::vector<double*> tmp; ... return &tmp[0];\<close>
  \<^verbatim>\<open>tmp\<close> is a local variable. Its elements live in a buffer that \<^verbatim>\<open>tmp\<close> owns;
  \<^verbatim>\<open>&tmp[0]\<close> is the address of that buffer, and the destructor of \<^verbatim>\<open>tmp\<close>
  releases the buffer when the function returns. The function returns the heap after the
  call together with the pointer.
\<close>

definition vecvec_to_pointer_pointer :: "heap \<Rightarrow> addr list \<Rightarrow> fault + (heap \<times> addr)" where
  "vecvec_to_pointer_pointer h a =
     (case push_back_pointers h [] a of
        Inl e \<Rightarrow> Inl e
      | Inr tmp \<Rightarrow>
          if tmp = [] then Inl OutOfBounds
          else (let (h1, p) = allocate (Pointers tmp) h
                in Inr (deallocate p h1, p)))"

section \<open>The calibration applicator\<close>

text \<open>
  \<^verbatim>\<open>params.cameras[0].set_...\<close>: the update of one element of the vector of cameras.
  Indexing beyond the end of the vector is undefined behaviour.
\<close>

definition update_camera ::
  "(PinholeCameraModel \<Rightarrow> PinholeCameraModel) \<Rightarrow> nat \<Rightarrow> EyeAndCameraParameters \<Rightarrow> fault + EyeAndCameraParameters" where
  "update_camera f i params =
     (if i < length (cameras params)
      then Inr (params\<lparr>cameras := (cameras params)[i := f (cameras params ! i)]\<rparr>)
      else Inl OutOfBounds)"

text \<open>
  \<^verbatim>\<open>params\<close> is passed by value: the function works on its own copy and returns it. The
  six statements are kept in their order.
\<close>

definition six_variable_calibration_applicator ::
  "(real \<Rightarrow> real \<Rightarrow> real \<Rightarrow> Mat3x3) \<Rightarrow> heap \<Rightarrow> EyeAndCameraParameters \<Rightarrow> addr \<Rightarrow> fault + EyeAndCameraParameters" where
  "six_variable_calibration_applicator rot h params variables =
     bind_result (read_variable h variables 0 0) (\<lambda>v0.
     bind_result (read_variable h variables 1 0) (\<lambda>v1.
     bind_result (read_variable h variables 2 0) (\<lambda>v2.
     bind_result (read_variable h variables 3 0) (\<lambda>v3.
     bind_result (read_variable h variables 4 0) (\<lambda>v4.
     bind_result (update_camera (set_camera_angle_y rot v4) 0
                    (params\<lparr>alpha := v0, beta := v1, R := v2, K := v3\<rparr>)) (\<lambda>params'.
     bind_result (read_variable h variables 5 0) (\<lambda>v5.
     update_camera (set_camera_angle_z rot v5) 0 params')))))))"

text \<open>
  Line 161 of the client:
  \<^verbatim>\<open>six_variable_calibration_applicator(parameters, vecvec_to_pointer_pointer(calibration_result))\<close>.
\<close>

definition apply_calibration_result ::
  "(real \<Rightarrow> real \<Rightarrow> real \<Rightarrow> Mat3x3) \<Rightarrow> heap \<Rightarrow> EyeAndCameraParameters \<Rightarrow> addr list \<Rightarrow> fault + EyeAndCameraParameters" where
  "apply_calibration_result rot h parameters calibration_result =
     bind_result (vecvec_to_pointer_pointer h calibration_result)
       (\<lambda>(h', variables). six_variable_calibration_applicator rot h' parameters variables)"

section \<open>The one-camera harness\<close>

text \<open>
  Modelled from the spec: \<^verbatim>\<open>deg_to_rad\<close> comes from \<^verbatim>\<open>Utils.hpp\<close>, which is
  missing from the sources. The specification gives the angles that the client passes
  through it in degrees ("alpha=-5 degrees"), so it is the conversion of degrees into radians.
\<close>

definition deg_to_rad :: "real \<Rightarrow> real" where
  "deg_to_rad d = d * pi / 180"

text \<open>
  \<^verbatim>\<open>const Vec3 actual_camera_position = make_vec3(24.5, -35, 10);\<close>
  \<^verbatim>\<open>const Vec3 wcs_offset = -make_vec3(24.5, -35, 10);\<close>
\<close>

definition actual_camera_position :: Vec3 where
  "actual_camera_position = make_vec3 24.5 (-35) 10"

definition wcs_offset :: Vec3 where
  "wcs_offset = vec3_neg (make_vec3 24.5 (-35) 10)"

text \<open>
  \<^verbatim>\<open>PinholeCameraModel camera;\<close> followed by the assignments of lines 99 to 105.
  \<open>cam0\<close> is the default-constructed camera.
\<close>

definition run_onecamera_camera ::
  "(real \<Rightarrow> real \<Rightarrow> real \<Rightarrow> Mat3x3) \<Rightarrow> PinholeCameraModel \<Rightarrow> PinholeCameraModel" where
  "run_onecamera_camera rot cam0 =
     set_camera_angles rot (deg_to_rad 8) 0 0
       (cam0\<lparr>principal_point_x := 299.5,
             principal_point_y := 399.5,
             pixel_size_cm_x := 2.4 * (1 / 10 ^ 6),
             pixel_size_cm_y := 2.4 * (1 / 10 ^ 6),
             effective_focal_length_cm := 0.0119144,
             position := vec3_add actual_camera_position wcs_offset\<rparr>)"

definition run_onecamera_lights :: "Vec3 list" where
  "run_onecamera_lights =
     [vec3_add (vec3_add actual_camera_position (make_vec3 13 0 0)) wcs_offset,
      vec3_add (vec3_add actual_camera_position (make_vec3 (-13) 0 0)) wcs_offset]"

text \<open>
  \<^verbatim>\<open>EyeAndCameraParameters parameters;\<close> followed by the assignments of lines 85 to
  113. The vector of cameras of a default-constructed bundle is empty, and the camera is
  pushed onto it.
\<close>

definition run_onecamera_parameters ::
  "(real \<Rightarrow> real \<Rightarrow> real \<Rightarrow> Mat3x3) \<Rightarrow> PinholeCameraModel \<Rightarrow> EyeAndCameraParameters" where
  "run_onecamera_parameters rot cam0 =
     \<lparr>alpha = deg_to_rad (-5),
      beta = deg_to_rad 1.5,
      R = 0.78,
      K = 0.42,
      n1 = 1.3375,
      n2 = 1,
      D = 0.53,
      cameras = [] @ [run_onecamera_camera rot cam0],
      light_positions = run_onecamera_lights,
      distance_to_camera_estimate = 10\<rparr>"

text \<open>
  The scene constants of lines 116 to 124: the display surface of 48.7 cm by 27.4 cm with
  1680 by 1050 pixels, each pixel size the quotient of two doubles, and the shift of the
  screen plane \<^verbatim>\<open>const double z_shift = -actual_camera_position[2];\<close>
\<close>

definition screen_pixel_size_x :: double where
  "screen_pixel_size_x = ddiv (double_of_real 48.7) (double_of_real 1680)"

definition screen_pixel_size_y :: double where
  "screen_pixel_size_y = ddiv (double_of_real 27.4) (double_of_real 1050)"

definition z_shift :: double where
  "z_shift = dneg (dat2 (double_vec3 actual_camera_position))"


text \<open>
  The body of the evaluation loop (lines 181 to 199) for one test sample: the pair of
  the values pushed onto \<^verbatim>\<open>errors_pixels\<close> and \<^verbatim>\<open>errors_cm\<close>. The estimator is
  defined in a header outside the sources and is a parameter; its observations
  (\<^verbatim>\<open>PupilCenterGlintInputs\<close>) are only handed through and have the type \<open>'i\<close>. The
  result of the estimator is two vectors of doubles and carries no status, and the body
  has no branch. The vector \<^verbatim>\<open>estimates\<close> that the body also fills is never read and
  is left out.
\<close>

definition sample_errors ::
  "('i \<Rightarrow> EyeAndCameraParameters \<Rightarrow> DefaultGazeEstimationResult) \<Rightarrow> EyeAndCameraParameters
     \<Rightarrow> 'i \<times> Vec2 \<Rightarrow> double \<times> double" where
  "sample_errors estimate parameters sample =
     (let data_in = fst sample;
          true_pog = snd sample;
          result = estimate data_in parameters;
          poi_gecs = calculate_point_of_interest (center_of_cornea result) (visual_axis result) z_shift;
          poi_wcs = vec3d_sub poi_gecs (double_vec3 wcs_offset);
          pos_on_screen = estimate_screen_point poi_wcs screen_pixel_size_x screen_pixel_size_y;
          delta_pixels = vec2_sub pos_on_screen true_pog;
          delta_cm = vec2_sub
            (make_vec2 (dmul (at0' true_pog) screen_pixel_size_x)
                       (dmul (dneg (at1' true_pog)) screen_pixel_size_y))
            (make_vec2 (dat0 poi_wcs) (dat1 poi_wcs))
      in (length_vec2 delta_pixels, length_vec2 delta_cm))"

text \<open>
  The loop over \<^verbatim>\<open>test_data\<close>: every iteration pushes one value onto each of the two
  vectors of errors.
\<close>

fun evaluation_loop ::
  "('i \<Rightarrow> EyeAndCameraParameters \<Rightarrow> DefaultGazeEstimationResult) \<Rightarrow> EyeAndCameraParameters
     \<Rightarrow> double list \<Rightarrow> double list \<Rightarrow> ('i \<times> Vec2) list
     \<Rightarrow> double list \<times> double list" where
  "evaluation_loop estimate parameters errors_pixels errors_cm [] = (errors_pixels, errors_cm)"
| "evaluation_loop estimate parameters errors_pixels errors_cm (sample # test_data) =
     (let e = sample_errors estimate parameters sample
      in evaluation_loop estimate parameters
           (errors_pixels @ [fst e]) (errors_cm @ [snd e]) test_data)"

text \<open>
  \<^verbatim>\<open>std::accumulate(errors.begin(), errors.end(), 0.) / static_cast<double>(errors.size())\<close>:
  the sum from the left, starting at \<open>+0\<close>, divided by the number of entries as a double.
\<close>

definition accumulate :: "double list \<Rightarrow> double \<Rightarrow> double" where
  "accumulate xs init = foldl dadd init xs"

definition average :: "double list \<Rightarrow> double" where
  "average errors = ddiv (accumulate errors (Finite False 0)) (double_of_real (real (length errors)))"

text \<open>The pair \<^verbatim>\<open>(avg_error_pixels, avg_error_cm)\<close> that \<^verbatim>\<open>run_onecamera\<close> prints.\<close>

definition run_onecamera_evaluation ::
  "('i \<Rightarrow> EyeAndCameraParameters \<Rightarrow> DefaultGazeEstimationResult) \<Rightarrow> EyeAndCameraParameters
     \<Rightarrow> ('i \<times> Vec2) list \<Rightarrow> double \<times> double" where
  "run_onecamera_evaluation estimate parameters test_data =
     (let (errors_pixels, errors_cm) = evaluation_loop estimate parameters [] [] test_data
      in (average errors_pixels, average errors_cm))"

text \<open>
  An estimation result is degenerate when one of its components is a NaN or its visual
  axis is parallel to the screen plane (the z-component is a zero).
\<close>

definition degenerate_result :: "DefaultGazeEstimationResult \<Rightarrow> bool" where
  "degenerate_result result =
     (has_nan (center_of_cornea result) \<or> has_nan (visual_axis result)
      \<or> is_zero (dat2 (visual_axis result)))"

section \<open>Concrete data\<close>

text \<open>
  A camera that looks straight ahead, a parameter bundle around it, and a table of six
  variables: once behind a pointer table that is alive (as the optimisation backend
  passes it), once as the vector of vectors that \<^verbatim>\<open>calibrate\<close> returns.
\<close>

definition example_camera :: PinholeCameraModel where
  "example_camera =
     set_camera_angles calculate_rotation_matrix 0 0 0
       \<lparr>principal_point_x = 299.5, principal_point_y = 399.5,
        pixel_size_cm_x = 2.4 * (1 / 10 ^ 6), pixel_size_cm_y = 2.4 * (1 / 10 ^ 6),
        effective_focal_length_cm = 0.0119144, position = make_vec3 0 0 0,
        angle_x = 0, angle_y = 0, angle_z = 0,
        cached_rotation = calculate_rotation_matrix 0 0 0\<rparr>"

definition example_base :: EyeAndCameraParameters where
  "example_base =
     \<lparr>alpha = 0, beta = 0, R = 1, K = 1, n1 = 1.3375, n2 = 1, D = 0.53,
      cameras = [example_camera], light_positions = [make_vec3 13 0 0, make_vec3 (-13) 0 0],
      distance_to_camera_estimate = 10\<rparr>"

definition example_rows :: "real list list" where
  "example_rows = [[0.1], [0.2], [0.78], [0.42], [pi], [0]]"

definition example_rows_heap :: heap where
  "example_rows_heap =
     \<lparr>live = [0 \<mapsto> Doubles [0.1], 1 \<mapsto> Doubles [0.2], 2 \<mapsto> Doubles [0.78],
              3 \<mapsto> Doubles [0.42], 4 \<mapsto> Doubles [pi], 5 \<mapsto> Doubles [0]],
      next_free = 6\<rparr>"

definition example_table_heap :: heap where
  "example_table_heap = fst (allocate (Pointers [0, 1, 2, 3, 4, 5]) example_rows_heap)"

text \<open>
  An estimator for three kinds of frames. For frame 0 the eye looks straight at the pixel
  (0, 0) of the screen; for frame 1 the estimation has failed and every component of its
  result is a NaN; for every other frame the visual axis it returns is parallel to the
  screen plane.
\<close>

definition example_estimate :: "nat \<Rightarrow> EyeAndCameraParameters \<Rightarrow> DefaultGazeEstimationResult" where
  "example_estimate frame parameters =
     (if frame = 0
      then \<lparr>center_of_cornea = make_vec3d (Finite True 24.5) (Finite False 35) (Finite False 50),
            visual_axis = make_vec3d (Finite False 0) (Finite False 0) (Finite True 1)\<rparr>
      else if frame = 1
      then \<lparr>center_of_cornea = make_vec3d NaN NaN NaN, visual_axis = make_vec3d NaN NaN NaN\<rparr>
      else \<lparr>center_of_cornea = make_vec3d (Finite False 0) (Finite False 0) (Finite False 50),
            visual_axis = make_vec3d (Finite False 1) (Finite False 0) (Finite False 0)\<rparr>)"

definition example_good_sample :: "nat \<times> Vec2" where
  "example_good_sample = (0, make_vec2 (Finite False 0) (Finite False 0))"

definition example_failed_sample :: "nat \<times> Vec2" where
  "example_failed_sample = (1, make_vec2 (Finite False 840) (Finite False 525))"


section \<open>Properties\<close>

subsection \<open>Reading variables through a pointer table\<close>

lemma those_nth:
  "those xs = Some ys \<Longrightarrow> length ys = length xs \<and> (\<forall>i<length xs. xs ! i = Some (ys ! i))"
proof (induction xs arbitrary: ys)
  case Nil
  then show ?case by simp
next
  case (Cons x xs)
  then obtain y ys' where x: "x = Some y" and t: "those xs = Some ys'" and ys: "ys = y # ys'"
    by (auto split: option.splits)
  from Cons.IH [OF t] have len: "length ys' = length xs"
    and nth: "\<forall>i<length xs. xs ! i = Some (ys' ! i)" by simp_all
  show ?case
  proof (intro conjI allI impI)
    show "length ys = length (x # xs)" using len ys by simp
  next
    fix i assume "i < length (x # xs)"
    then show "(x # xs) ! i = Some (ys ! i)"
      using x ys nth by (cases i) simp_all
  qed
qed

lemma read_variable_table:
  assumes "table_of h variables = Some rows" and "i < length rows" and "rows ! i \<noteq> []"
  shows "read_variable h variables i 0 = Inr (rows ! i ! 0)"
proof -
  from assms(1) obtain ps where ps: "live h variables = Some (Pointers ps)"
    and rows: "those (map (row_of h) ps) = Some rows"
    by (auto simp: table_of_def rows_of_def split: option.splits buffer.splits)
  from those_nth [OF rows] have len: "length rows = length ps"
    and nth: "\<forall>i<length ps. row_of h (ps ! i) = Some (rows ! i)" by simp_all
  from assms(2) len nth have "row_of h (ps ! i) = Some (rows ! i)" by simp
  then have row: "live h (ps ! i) = Some (Doubles (rows ! i))"
    by (auto simp: row_of_def split: option.splits buffer.splits)
  have "read_pointer h variables i = Inr (ps ! i)"
    using ps assms(2) len by (simp add: read_pointer_def)
  moreover have "read_double h (ps ! i) 0 = Inr (rows ! i ! 0)"
    using row assms(3) by (simp add: read_double_def)
  ultimately show ?thesis by (simp add: read_variable_def bind_result_def)
qed

lemma example_table: "table_of example_table_heap 6 = Some example_rows"
  by (simp add: table_of_def rows_of_def row_of_def example_table_heap_def example_rows_heap_def
      allocate_def example_rows_def)

lemma rotation_half_turn_differs:
  "calculate_rotation_matrix 0 pi 0 \<noteq> calculate_rotation_matrix 0 0 0"
  by (simp add: calculate_rotation_matrix_def mat_mul_def mat_vec_row_def rotation_about_x_def
      rotation_about_y_def rotation_about_z_def)

subsection \<open>The applicator\<close>

text \<open>
  C1 (as amended). \<open>six_variable_calibration_applicator\<close> works on its own copy of the
  bundle (the parameter is passed by value, the model is a function of the base) and
  neither writes to the heap nor to the base. For a base with at least one camera and a
  pointer table that is alive and has at least six rows with at least one entry each, it
  returns the base with \<open>alpha\<close>, \<open>beta\<close>, \<open>R\<close>, \<open>K\<close> set to the first entries of
  rows 0 to 3 and with camera 0's y-angle and z-angle set to the first entries of rows 4
  and 5. Camera 0's cached rotation matrix is recomputed from its x-angle and the two new
  angles. Every other field of the bundle, every other field of camera 0 and every other
  camera are those of the base: the result is the base with exactly these updates.
\<close>

theorem C1_applicator_writes:
  assumes table: "table_of h variables = Some rows"
    and six: "6 \<le> length rows"
    and entries: "[] \<notin> set (take 6 rows)"
    and cam: "cameras base \<noteq> []"
  shows "six_variable_calibration_applicator rot h base variables =
           Inr (base\<lparr>alpha := rows ! 0 ! 0, beta := rows ! 1 ! 0, R := rows ! 2 ! 0, K := rows ! 3 ! 0,
                    cameras := (cameras base)
                      [0 := (cameras base ! 0)\<lparr>angle_y := rows ! 4 ! 0, angle_z := rows ! 5 ! 0,
                              cached_rotation := rot (angle_x (cameras base ! 0)) (rows ! 4 ! 0) (rows ! 5 ! 0)\<rparr>]\<rparr>)"
proof -
  have r: "read_variable h variables i 0 = Inr (rows ! i ! 0)" if "i < 6" for i
  proof -
    from that six have "take 6 rows ! i \<in> set (take 6 rows)" by (intro nth_mem) simp
    with that entries have "rows ! i \<noteq> []" by auto
    with read_variable_table [OF table, of i] six that show ?thesis by simp
  qed
  have r0: "read_variable h variables 0 0 = Inr (rows ! 0 ! 0)" using r [of 0] by simp
  have r1: "read_variable h variables (Suc 0) 0 = Inr (rows ! 1 ! 0)" using r [of 1] by simp
  have r2: "read_variable h variables 2 0 = Inr (rows ! 2 ! 0)" using r [of 2] by simp
  have r3: "read_variable h variables 3 0 = Inr (rows ! 3 ! 0)" using r [of 3] by simp
  have r4: "read_variable h variables 4 0 = Inr (rows ! 4 ! 0)" using r [of 4] by simp
  have r5: "read_variable h variables 5 0 = Inr (rows ! 5 ! 0)" using r [of 5] by simp
  from cam have len: "0 < length (cameras base)" by simp
  show ?thesis
    using len
    by (simp add: six_variable_calibration_applicator_def r0 r1 r2 r3 r4 r5 bind_result_def
        update_camera_def set_camera_angle_y_def set_camera_angle_z_def)
qed

text \<open>
  The theorem of C1 at the concrete table \<open>example_rows\<close> and the bundle
  \<open>example_base\<close>.
\<close>

theorem C1_applicator_writes_witness:
  "table_of example_table_heap 6 = Some example_rows
   \<and> 6 \<le> length example_rows
   \<and> [] \<notin> set (take 6 example_rows)
   \<and> cameras example_base \<noteq> []
   \<and> six_variable_calibration_applicator calculate_rotation_matrix example_table_heap example_base 6 =
       Inr (example_base\<lparr>alpha := 0.1, beta := 0.2, R := 0.78, K := 0.42,
              cameras := [example_camera\<lparr>angle_y := pi, angle_z := 0,
                             cached_rotation := calculate_rotation_matrix 0 pi 0\<rparr>]\<rparr>)"
proof -
  have rows: "6 \<le> length example_rows" "[] \<notin> set (take 6 example_rows)"
    by (simp_all add: example_rows_def)
  have cam: "cameras example_base \<noteq> []" by (simp add: example_base_def)
  have x: "angle_x example_camera = 0" by (simp add: example_camera_def set_camera_angles_def)
  from C1_applicator_writes [OF example_table rows cam, of calculate_rotation_matrix]
  have "six_variable_calibration_applicator calculate_rotation_matrix example_table_heap example_base 6 =
       Inr (example_base\<lparr>alpha := 0.1, beta := 0.2, R := 0.78, K := 0.42,
              cameras := [example_camera\<lparr>angle_y := pi, angle_z := 0,
                             cached_rotation := calculate_rotation_matrix 0 pi 0\<rparr>]\<rparr>)"
    by (simp add: example_rows_def x) (simp add: example_base_def x)
  with example_table rows cam show ?thesis by simp
qed

text \<open>
  C1 as stated fails: the returned bundle is not the base with the six scalars written and
  "the remaining camera fields" unchanged. On a camera whose angles are all zero, setting
  the y-angle to \<open>pi\<close> also replaces the cached rotation matrix of camera 0. And on a
  bundle without a camera, as a default-constructed one is, \<^verbatim>\<open>params.cameras[0]\<close> is
  out of range and no bundle is returned.
\<close>

theorem C1_counterexample:
  "six_variable_calibration_applicator calculate_rotation_matrix example_table_heap example_base 6 \<noteq>
       Inr (example_base\<lparr>alpha := 0.1, beta := 0.2, R := 0.78, K := 0.42,
              cameras := [example_camera\<lparr>angle_y := pi, angle_z := 0\<rparr>]\<rparr>)
   \<and> six_variable_calibration_applicator calculate_rotation_matrix example_table_heap
         (example_base\<lparr>cameras := []\<rparr>) 6 = Inl OutOfBounds"
proof -
  have no_camera: "six_variable_calibration_applicator calculate_rotation_matrix example_table_heap
         (example_base\<lparr>cameras := []\<rparr>) 6 = Inl OutOfBounds"
    by (simp add: six_variable_calibration_applicator_def read_variable_def read_pointer_def
        read_double_def bind_result_def update_camera_def example_table_heap_def
        example_rows_heap_def allocate_def)
  have c: "cached_rotation example_camera = calculate_rotation_matrix 0 0 0"
    by (simp add: example_camera_def set_camera_angles_def)
  have "six_variable_calibration_applicator calculate_rotation_matrix example_table_heap example_base 6 =
       Inr (example_base\<lparr>alpha := 0.1, beta := 0.2, R := 0.78, K := 0.42,
              cameras := [example_camera\<lparr>angle_y := pi, angle_z := 0,
                             cached_rotation := calculate_rotation_matrix 0 pi 0\<rparr>]\<rparr>)"
    by (simp add: six_variable_calibration_applicator_def read_variable_def read_pointer_def
        read_double_def bind_result_def update_camera_def set_camera_angle_y_def
        set_camera_angle_z_def example_table_heap_def example_rows_heap_def allocate_def
        example_base_def example_camera_def set_camera_angles_def)
  moreover have "example_camera\<lparr>angle_y := pi, angle_z := 0,
                             cached_rotation := calculate_rotation_matrix 0 pi 0\<rparr>
      \<noteq> example_camera\<lparr>angle_y := pi, angle_z := 0\<rparr>"
  proof
    assume "example_camera\<lparr>angle_y := pi, angle_z := 0,
                             cached_rotation := calculate_rotation_matrix 0 pi 0\<rparr>
      = example_camera\<lparr>angle_y := pi, angle_z := 0\<rparr>"
    then have "cached_rotation (example_camera\<lparr>angle_y := pi, angle_z := 0,
                             cached_rotation := calculate_rotation_matrix 0 pi 0\<rparr>)
      = cached_rotation (example_camera\<lparr>angle_y := pi, angle_z := 0\<rparr>)" by simp
    with c rotation_half_turn_differs show False by simp
  qed
  ultimately have "six_variable_calibration_applicator calculate_rotation_matrix example_table_heap example_base 6 \<noteq>
       Inr (example_base\<lparr>alpha := 0.1, beta := 0.2, R := 0.78, K := 0.42,
              cameras := [example_camera\<lparr>angle_y := pi, angle_z := 0\<rparr>]\<rparr>)"
    by (simp add: example_base_def)
  with no_camera show ?thesis by simp
qed

subsection \<open>Arithmetic of doubles\<close>

text \<open>
  The exponent and the rounding are what their names say: \<open>expo x\<close> is the integer
  \<open>e\<close> with \<open>2^e \<le> x < 2^(e+1)\<close>, a rounded magnitude overflows exactly when it reaches
  \<open>2^1024\<close>, and \<open>rne x\<close> is a multiple of the spacing at \<open>x\<close> that is at most half a
  spacing away from \<open>x\<close>.
\<close>

lemma expo_bounds:
  assumes "0 < x"
  shows "2 powi expo x \<le> x \<and> x < 2 powi (expo x + 1)"
proof -
  have int_bounds: "(2::real) ^ nat (bitlen n - 1) \<le> real_of_int n
      \<and> real_of_int n + 1 \<le> 2 ^ nat (bitlen n) \<and> 1 \<le> bitlen n" if "0 < n" for n
  proof -
    from bitlen_bounds [OF that] have lo: "2 ^ nat (bitlen n - 1) \<le> n"
      and hi: "n + 1 \<le> 2 ^ nat (bitlen n)" by simp_all
    from lo have "real_of_int (2 ^ nat (bitlen n - 1)) \<le> real_of_int n" by linarith
    moreover from hi have "real_of_int (n + 1) \<le> real_of_int (2 ^ nat (bitlen n))" by linarith
    moreover from that have "1 \<le> bitlen n" by (simp add: bitlen_alt_def)
    ultimately show ?thesis by simp
  qed
  show ?thesis
  proof (cases "1 \<le> x")
    case True
    define n where "n = \<lfloor>x\<rfloor>"
    from True have n: "0 < n" by (simp add: n_def)
    note ib = int_bounds [OF n]
    have e: "expo x = bitlen n - 1" using True by (simp add: expo_def n_def)
    have p1: "2 powi expo x = (2::real) ^ nat (bitlen n - 1)"
      using ib by (simp add: e power_int_def)
    have "nat (bitlen n - 1 + 1) = nat (bitlen n)" by simp
    then have p2: "2 powi (expo x + 1) = (2::real) ^ nat (bitlen n)"
      using ib by (simp add: e power_int_def)
    have "real_of_int n \<le> x" and "x < real_of_int n + 1" by (simp_all add: n_def)
    with ib show ?thesis unfolding p1 p2 by linarith
  next
    case False
    define y where "y = 1 / x"
    define n where "n = \<lceil>y\<rceil> - 1"
    from False assms have y1: "1 < y" by (simp add: y_def)
    then have n: "0 < n" unfolding n_def by linarith
    have ny: "real_of_int n < y" "y \<le> real_of_int n + 1" unfolding n_def by linarith+
    note ib = int_bounds [OF n]
    have e: "expo x = - bitlen n" using False by (simp add: expo_def n_def y_def)
    from ib ny have ylo: "(2::real) ^ nat (bitlen n - 1) < y" and yhi: "y \<le> 2 ^ nat (bitlen n)"
      by linarith+
    have x: "x = 1 / y" using assms by (simp add: y_def)
    have p1: "2 powi expo x = 1 / (2::real) ^ nat (bitlen n)"
      using ib by (simp add: e power_int_def field_simps)
    have "nat (- (1 - bitlen n)) = nat (bitlen n - 1)" by simp
    then have p2: "2 powi (expo x + 1) = 1 / (2::real) ^ nat (bitlen n - 1)"
      using ib by (auto simp add: e power_int_def field_simps)
    have "1 / (2::real) ^ nat (bitlen n) \<le> 1 / y"
      using yhi y1 by (intro divide_left_mono) simp_all
    moreover have "1 / y < 1 / (2::real) ^ nat (bitlen n - 1)"
      using ylo y1 by (intro divide_strict_left_mono) (simp_all add: mult_pos_pos)
    ultimately have "2 powi expo x \<le> 1 / y \<and> 1 / y < 2 powi (expo x + 1)"
      by (simp only: p1 p2)
    with x show ?thesis by simp
  qed
qed

lemma expo_ge_iff:
  assumes "0 < x"
  shows "(n \<le> expo x) = (2 powi n \<le> x)"
proof
  assume "n \<le> expo x"
  then have "(2::real) powi n \<le> 2 powi expo x" by (intro power_int_increasing) simp_all
  with expo_bounds [OF assms] show "2 powi n \<le> x" by linarith
next
  assume h: "2 powi n \<le> x"
  show "n \<le> expo x"
  proof (rule ccontr)
    assume "\<not> n \<le> expo x"
    then have "expo x + 1 \<le> n" by simp
    then have "(2::real) powi (expo x + 1) \<le> 2 powi n" by (intro power_int_increasing) simp_all
    with expo_bounds [OF assms] h show False by linarith
  qed
qed

lemma round_mag_overflow:
  "round_mag s x = (if 2 ^ 1024 \<le> rne x then Infinity s else Finite s (rne x))"
proof (cases "0 < rne x")
  case True
  from expo_ge_iff [OF True, of 1024] show ?thesis
    using True by (simp add: round_mag_def Let_def)
next
  case False
  moreover have "(0::real) < 2 ^ 1024" by simp
  ultimately have "\<not> 2 ^ 1024 \<le> rne x" by linarith
  with False show ?thesis by (simp add: round_mag_def Let_def)
qed

lemma round_half_even_nearest: "\<bar>real_of_int (round_half_even r) - r\<bar> \<le> 1 / 2"
proof -
  have "real_of_int \<lfloor>r\<rfloor> \<le> r" and "r < real_of_int \<lfloor>r\<rfloor> + 1" by linarith+
  then show ?thesis by (auto simp: round_half_even_def Let_def)
qed

lemma rne_nearest:
  assumes "0 < x"
  shows "\<bar>rne x - x\<bar> \<le> 2 powi (max (expo x) (- 1022) - 52) / 2"
proof -
  define q where "q = max (expo x) (- 1022) - 52"
  have pos: "(0::real) < 2 powi q" by simp
  have "rne x - x = (real_of_int (round_half_even (x / 2 powi q)) - x / 2 powi q) * 2 powi q"
    using assms pos by (simp add: rne_def Let_def q_def field_simps)
  then have "\<bar>rne x - x\<bar> = \<bar>real_of_int (round_half_even (x / 2 powi q)) - x / 2 powi q\<bar> * 2 powi q"
    using pos by (simp add: abs_mult)
  also have "\<dots> \<le> 1 / 2 * 2 powi q"
    using round_half_even_nearest [of "x / 2 powi q"] pos by (intro mult_right_mono) simp_all
  finally show ?thesis by (simp add: q_def)
qed

lemma dadd_nonfinite: "\<not> is_finite a \<or> \<not> is_finite b \<Longrightarrow> \<not> is_finite (dadd a b)"
  by (cases a; cases b) (auto simp: is_finite_def)

lemma dadd_NaN_right: "dadd a NaN = NaN"
  by (cases a) simp_all

lemma dneg_finite: "is_finite (dneg a) = is_finite a"
  by (cases a) (simp_all add: is_finite_def dneg_def)

lemma dsub_nonfinite: "\<not> is_finite a \<or> \<not> is_finite b \<Longrightarrow> \<not> is_finite (dsub a b)"
  by (simp add: dsub_def dadd_nonfinite dneg_finite)


lemma dmul_nonfinite: "\<not> is_finite a \<or> \<not> is_finite b \<Longrightarrow> \<not> is_finite (dmul a b)"
  by (cases a; cases b) (auto simp: is_finite_def)


lemma ddiv_nonfinite: "\<not> is_finite a \<Longrightarrow> \<not> is_finite (ddiv a b)"
  by (cases a; cases b) (auto simp: is_finite_def)

lemma ddiv_by_NaN: "is_nan b \<Longrightarrow> \<not> is_finite (ddiv a b)"
  by (cases a; cases b) (auto simp: is_finite_def is_nan_def)

lemma ddiv_by_zero: "is_zero b \<Longrightarrow> \<not> is_finite (ddiv a b)"
  by (cases a; cases b) (auto simp: is_finite_def is_zero_def)

lemma dsqrt_nonfinite: "\<not> is_finite a \<Longrightarrow> \<not> is_finite (dsqrt a)"
  by (cases a) (auto simp: is_finite_def dsqrt_def)

lemma is_nan_nonfinite: "is_nan a \<Longrightarrow> \<not> is_finite a"
  by (cases a) (auto simp: is_finite_def is_nan_def)

lemma length_vec2_nonfinite:
  "\<not> is_finite (at0' a) \<or> \<not> is_finite (at1' a) \<Longrightarrow> \<not> is_finite (length_vec2 a)"
proof -
  assume "\<not> is_finite (at0' a) \<or> \<not> is_finite (at1' a)"
  then have "\<not> is_finite (dmul (at0' a) (at0' a)) \<or> \<not> is_finite (dmul (at1' a) (at1' a))"
    using dmul_nonfinite [of "at0' a" "at0' a"] dmul_nonfinite [of "at1' a" "at1' a"] by blast
  then have "\<not> is_finite (dadd (dmul (at0' a) (at0' a)) (dmul (at1' a) (at1' a)))"
    by (rule dadd_nonfinite)
  then show ?thesis unfolding length_vec2_def by (rule dsqrt_nonfinite)
qed




lemma finite_double_is_finite: "finite_double a \<Longrightarrow> is_finite a"
  by (cases a) (simp_all add: finite_double_def is_finite_def)






subsection \<open>Point of interest\<close>




subsection \<open>The evaluation loop\<close>

lemma point_of_interest_nonfinite_factor:
  assumes "\<not> is_finite (ddiv (dsub zs (dat2 c)) (dat2 v))"
  shows "\<not> is_finite (dat0 (calculate_point_of_interest c v zs))
       \<and> \<not> is_finite (dat1 (calculate_point_of_interest c v zs))
       \<and> \<not> is_finite (dat2 (calculate_point_of_interest c v zs))"
  using assms
  by (simp add: calculate_point_of_interest_def Let_def vec3d_add_def vec3d_scale_def
      dadd_nonfinite dmul_nonfinite)

lemma point_of_interest_degenerate:
  assumes "has_nan c \<or> has_nan v \<or> is_zero (dat2 v)"
  shows "\<not> is_finite (dat0 (calculate_point_of_interest c v zs))
       \<or> \<not> is_finite (dat1 (calculate_point_of_interest c v zs))"
proof -
  let ?kg = "ddiv (dsub zs (dat2 c)) (dat2 v)"
  have p0: "dat0 (calculate_point_of_interest c v zs) = dadd (dat0 c) (dmul ?kg (dat0 v))"
    and p1: "dat1 (calculate_point_of_interest c v zs) = dadd (dat1 c) (dmul ?kg (dat1 v))"
    by (simp_all add: calculate_point_of_interest_def Let_def vec3d_add_def vec3d_scale_def)
  consider (c0) "is_nan (dat0 c)" | (c1) "is_nan (dat1 c)" | (c2) "is_nan (dat2 c)"
    | (v0) "is_nan (dat0 v)" | (v1) "is_nan (dat1 v)" | (v2) "is_nan (dat2 v)"
    | (zero) "is_zero (dat2 v)"
    using assms by (auto simp: has_nan_def)
  then show ?thesis
  proof cases
    case c0
    then show ?thesis unfolding p0 by (simp add: dadd_nonfinite is_nan_nonfinite)
  next
    case c1
    then show ?thesis unfolding p1 by (simp add: dadd_nonfinite is_nan_nonfinite)
  next
    case c2
    then have "\<not> is_finite (dsub zs (dat2 c))" by (simp add: dsub_nonfinite is_nan_nonfinite)
    then have "\<not> is_finite ?kg" by (rule ddiv_nonfinite)
    then show ?thesis using point_of_interest_nonfinite_factor by blast
  next
    case v0
    then show ?thesis unfolding p0 by (simp add: dadd_nonfinite dmul_nonfinite is_nan_nonfinite)
  next
    case v1
    then show ?thesis unfolding p1 by (simp add: dadd_nonfinite dmul_nonfinite is_nan_nonfinite)
  next
    case v2
    then have "\<not> is_finite ?kg" by (rule ddiv_by_NaN)
    then show ?thesis using point_of_interest_nonfinite_factor by blast
  next
    case zero
    then have "\<not> is_finite ?kg" by (rule ddiv_by_zero)
    then show ?thesis using point_of_interest_nonfinite_factor by blast
  qed
qed

lemma sample_errors_nonfinite:
  assumes "\<not> is_finite (dat0 (calculate_point_of_interest
              (center_of_cornea (estimate (fst sample) parameters))
              (visual_axis (estimate (fst sample) parameters)) z_shift))
         \<or> \<not> is_finite (dat1 (calculate_point_of_interest
              (center_of_cornea (estimate (fst sample) parameters))
              (visual_axis (estimate (fst sample) parameters)) z_shift))"
  shows "\<not> is_finite (fst (sample_errors estimate parameters sample))
       \<and> \<not> is_finite (snd (sample_errors estimate parameters sample))"
proof -
  define poi_wcs where "poi_wcs = vec3d_sub (calculate_point_of_interest
              (center_of_cornea (estimate (fst sample) parameters))
              (visual_axis (estimate (fst sample) parameters)) z_shift) (double_vec3 wcs_offset)"
  define pos where "pos = estimate_screen_point poi_wcs screen_pixel_size_x screen_pixel_size_y"
  from assms have w: "\<not> is_finite (dat0 poi_wcs) \<or> \<not> is_finite (dat1 poi_wcs)"
    by (auto simp: poi_wcs_def vec3d_sub_def dsub_nonfinite)
  then have "\<not> is_finite (at0' pos) \<or> \<not> is_finite (at1' pos)"
    by (auto simp: pos_def estimate_screen_point_def ddiv_nonfinite dneg_finite)
  then have pixels: "\<not> is_finite (length_vec2 (vec2_sub pos (snd sample)))"
    by (intro length_vec2_nonfinite) (auto simp: vec2_sub_def dsub_nonfinite)
  have cm: "\<not> is_finite (length_vec2 (vec2_sub
      (make_vec2 (dmul (at0' (snd sample)) screen_pixel_size_x)
                 (dmul (dneg (at1' (snd sample))) screen_pixel_size_y))
      (make_vec2 (dat0 poi_wcs) (dat1 poi_wcs))))"
    using w by (intro length_vec2_nonfinite) (auto simp: vec2_sub_def dsub_nonfinite)
  from pixels cm show ?thesis
    by (simp add: sample_errors_def Let_def poi_wcs_def pos_def)
qed

lemma evaluation_loop_map:
  "evaluation_loop estimate parameters errors_pixels errors_cm test_data =
     (errors_pixels @ map (\<lambda>sample. fst (sample_errors estimate parameters sample)) test_data,
      errors_cm @ map (\<lambda>sample. snd (sample_errors estimate parameters sample)) test_data)"
  by (induction test_data arbitrary: errors_pixels errors_cm) (simp_all add: Let_def)

lemma foldl_dadd_nonfinite:
  "\<not> is_finite init \<or> (\<exists>e \<in> set xs. \<not> is_finite e) \<Longrightarrow> \<not> is_finite (foldl dadd init xs)"
proof (induction xs arbitrary: init)
  case Nil
  then show ?case by simp
next
  case (Cons x xs)
  from Cons.prems have "\<not> is_finite (dadd init x) \<or> (\<exists>e \<in> set xs. \<not> is_finite e)"
    using dadd_nonfinite [of init x] by auto
  then show ?case using Cons.IH [of "dadd init x"] by simp
qed

lemma average_nonfinite:
  "\<exists>e \<in> set errors. \<not> is_finite e \<Longrightarrow> \<not> is_finite (average errors)"
  unfolding average_def accumulate_def
  by (intro ddiv_nonfinite foldl_dadd_nonfinite) simp

lemma good_sample_point:
  "vec3d_sub
     (calculate_point_of_interest
        (center_of_cornea (example_estimate 0 parameters))
        (visual_axis (example_estimate 0 parameters)) z_shift)
     (double_vec3 wcs_offset)
   = make_vec3d (Finite False 0) (Finite False 0) (Finite False 0)"
  by code_simp

lemma good_sample_deltas:
  "vec2_sub
     (estimate_screen_point (make_vec3d (Finite False 0) (Finite False 0) (Finite False 0))
        screen_pixel_size_x screen_pixel_size_y)
     (make_vec2 (Finite False 0) (Finite False 0))
   = make_vec2 (Finite False 0) (Finite True 0)"
  "vec2_sub
     (make_vec2 (dmul (Finite False 0) screen_pixel_size_x)
                (dmul (dneg (Finite False 0)) screen_pixel_size_y))
     (make_vec2 (Finite False 0) (Finite False 0))
   = make_vec2 (Finite False 0) (Finite True 0)"
  by code_simp+

lemma length_vec2_zero: "length_vec2 (make_vec2 (Finite s 0) (Finite t 0)) = Finite False 0"
  by (simp add: length_vec2_def round_mag_def rne_def dsqrt_def valof_def)

lemma good_sample_errors:
  "sample_errors example_estimate parameters example_good_sample = (Finite False 0, Finite False 0)"
  by (simp add: sample_errors_def Let_def example_good_sample_def
      good_sample_point good_sample_deltas length_vec2_zero)

lemma failed_sample_errors:
  "sample_errors example_estimate parameters example_failed_sample = (NaN, NaN)"
  by (simp add: sample_errors_def Let_def example_estimate_def example_failed_sample_def
      calculate_point_of_interest_def vec3d_add_def vec3d_scale_def vec3d_sub_def
      estimate_screen_point_def vec2_sub_def length_vec2_def dsub_def dneg_def dsqrt_def
      dadd_NaN_right)

lemma average_good: "average [Finite False 0] = Finite False 0"
  by code_simp

lemma average_good_failed: "average [Finite False 0, NaN] = NaN"
  by code_simp

text \<open>
  C4 (as amended). The evaluation loop has no skip and no flag. Whatever the estimator
  returns, the loop pushes one pixel error and one centimetre error per test sample, in
  the order of the samples, and each reported average is taken over all of them. A NaN
  or an infinity among the entries propagates: the average of a vector with a non-finite
  entry is not finite. In particular, if the estimation result of one test sample has a
  NaN component, or a visual axis parallel to the screen plane, both reported averages
  are not finite.
\<close>

theorem C4_every_sample_counts:
  "evaluation_loop estimate parameters [] [] test_data =
     (map (\<lambda>sample. fst (sample_errors estimate parameters sample)) test_data,
      map (\<lambda>sample. snd (sample_errors estimate parameters sample)) test_data)
   \<and> run_onecamera_evaluation estimate parameters test_data =
     (average (map (\<lambda>sample. fst (sample_errors estimate parameters sample)) test_data),
      average (map (\<lambda>sample. snd (sample_errors estimate parameters sample)) test_data))
   \<and> ((\<exists>e \<in> set errors. \<not> is_finite e) \<longrightarrow> \<not> is_finite (average errors))
   \<and> ((\<exists>sample \<in> set test_data. degenerate_result (estimate (fst sample) parameters))
        \<longrightarrow> \<not> is_finite (fst (run_onecamera_evaluation estimate parameters test_data))
          \<and> \<not> is_finite (snd (run_onecamera_evaluation estimate parameters test_data)))"
proof -
  let ?ep = "map (\<lambda>sample. fst (sample_errors estimate parameters sample)) test_data"
  let ?ec = "map (\<lambda>sample. snd (sample_errors estimate parameters sample)) test_data"
  have loop: "evaluation_loop estimate parameters [] [] test_data = (?ep, ?ec)"
    by (simp add: evaluation_loop_map)
  have run: "run_onecamera_evaluation estimate parameters test_data = (average ?ep, average ?ec)"
    by (simp add: run_onecamera_evaluation_def loop)
  have avg: "(\<exists>e \<in> set errors. \<not> is_finite e) \<longrightarrow> \<not> is_finite (average errors)"
    using average_nonfinite by blast
  have deg: "\<not> is_finite (fst (run_onecamera_evaluation estimate parameters test_data))
          \<and> \<not> is_finite (snd (run_onecamera_evaluation estimate parameters test_data))"
    if "\<exists>sample \<in> set test_data. degenerate_result (estimate (fst sample) parameters)"
  proof -
    from that obtain sample where s: "sample \<in> set test_data"
      and d: "degenerate_result (estimate (fst sample) parameters)" by blast
    from d have "\<not> is_finite (fst (sample_errors estimate parameters sample))
       \<and> \<not> is_finite (snd (sample_errors estimate parameters sample))"
      by (intro sample_errors_nonfinite point_of_interest_degenerate)
         (simp add: degenerate_result_def)
    with s have "\<exists>e \<in> set ?ep. \<not> is_finite e" and "\<exists>e \<in> set ?ec. \<not> is_finite e" by auto
    then have "\<not> is_finite (average ?ep)" and "\<not> is_finite (average ?ec)"
      using average_nonfinite [of ?ep] average_nonfinite [of ?ec] by blast+
    then show ?thesis by (simp add: run)
  qed
  from loop run avg deg show ?thesis by blast
qed

text \<open>
  The theorem of C4 at a good sample followed by a sample whose estimation has failed
  with NaN.
\<close>

theorem C4_every_sample_counts_witness:
  "example_failed_sample \<in> set [example_good_sample, example_failed_sample]
   \<and> degenerate_result (example_estimate (fst example_failed_sample) example_base)
   \<and> \<not> is_finite (fst (run_onecamera_evaluation example_estimate example_base
                        [example_good_sample, example_failed_sample]))
   \<and> \<not> is_finite (snd (run_onecamera_evaluation example_estimate example_base
                        [example_good_sample, example_failed_sample]))"
proof -
  have s: "example_failed_sample \<in> set [example_good_sample, example_failed_sample]" by simp
  have d: "degenerate_result (example_estimate (fst example_failed_sample) example_base)"
    by (simp add: degenerate_result_def example_estimate_def example_failed_sample_def
        has_nan_def is_nan_def)
  from s d have "\<exists>sample \<in> set [example_good_sample, example_failed_sample].
      degenerate_result (example_estimate (fst sample) example_base)" by blast
  with C4_every_sample_counts [of example_estimate example_base
      "[example_good_sample, example_failed_sample]" "[]"]
  have "\<not> is_finite (fst (run_onecamera_evaluation example_estimate example_base
                        [example_good_sample, example_failed_sample]))
   \<and> \<not> is_finite (snd (run_onecamera_evaluation example_estimate example_base
                        [example_good_sample, example_failed_sample]))" by blast
  with s d show ?thesis by blast
qed

text \<open>
  C4 as stated fails. The good sample alone has the average errors 0 and 0. Followed by
  a sample whose estimation has failed with NaN, the averages are not those over the
  good sample: the failed sample is not skipped, its NaN errors enter both sums, and both
  reported averages are NaN.
\<close>

theorem C4_counterexample:
  "run_onecamera_evaluation example_estimate example_base [example_good_sample]
     = (Finite False 0, Finite False 0)
   \<and> run_onecamera_evaluation example_estimate example_base [example_good_sample, example_failed_sample]
       = (NaN, NaN)"
  by (simp add: run_onecamera_evaluation_def good_sample_errors failed_sample_errors
      average_good average_good_failed)

subsection \<open>The configured scenario\<close>

text \<open>
  C6 (as amended). \<open>run_onecamera\<close> configures one camera whose physical position
  (24.5, -35, 10) cm is shifted by the world offset \<open>wcs_offset\<close> = (-24.5, 35, -10), so
  that the position stored in the camera is the origin of the world frame; principal
  point (299.5, 399.5), pixel pitch 2.4e-6 in both axes, focal length 0.0119144, camera
  angles (8 degrees, 0, 0); two lights, stored at the camera position displaced by +13 and
  by -13 in x; and the eye parameters alpha = -5 degrees, beta = 1.5 degrees, R = 0.78,
  K = 0.42, n1 = 1.3375, n2 = 1, D = 0.53, with the distance estimate 10.
\<close>

theorem C6_scenario_constants:
  "cameras (run_onecamera_parameters rot cam0) = [run_onecamera_camera rot cam0]
   \<and> actual_camera_position = make_vec3 24.5 (-35) 10
   \<and> wcs_offset = make_vec3 (-24.5) 35 (-10)
   \<and> position (run_onecamera_camera rot cam0) = make_vec3 0 0 0
   \<and> principal_point_x (run_onecamera_camera rot cam0) = 299.5
   \<and> principal_point_y (run_onecamera_camera rot cam0) = 399.5
   \<and> pixel_size_cm_x (run_onecamera_camera rot cam0) = 2.4 / 10 ^ 6
   \<and> pixel_size_cm_y (run_onecamera_camera rot cam0) = 2.4 / 10 ^ 6
   \<and> effective_focal_length_cm (run_onecamera_camera rot cam0) = 0.0119144
   \<and> angle_x (run_onecamera_camera rot cam0) = deg_to_rad 8
   \<and> camera_angle_y (run_onecamera_camera rot cam0) = 0
   \<and> camera_angle_z (run_onecamera_camera rot cam0) = 0
   \<and> light_positions (run_onecamera_parameters rot cam0)
       = [vec3_add (position (run_onecamera_camera rot cam0)) (make_vec3 13 0 0),
          vec3_add (position (run_onecamera_camera rot cam0)) (make_vec3 (-13) 0 0)]
   \<and> light_positions (run_onecamera_parameters rot cam0) = [make_vec3 13 0 0, make_vec3 (-13) 0 0]
   \<and> alpha (run_onecamera_parameters rot cam0) = deg_to_rad (-5)
   \<and> alpha (run_onecamera_parameters rot cam0) = - pi / 36
   \<and> beta (run_onecamera_parameters rot cam0) = deg_to_rad 1.5
   \<and> beta (run_onecamera_parameters rot cam0) = pi / 120
   \<and> R (run_onecamera_parameters rot cam0) = 0.78
   \<and> K (run_onecamera_parameters rot cam0) = 0.42
   \<and> n1 (run_onecamera_parameters rot cam0) = 1.3375
   \<and> n2 (run_onecamera_parameters rot cam0) = 1
   \<and> D (run_onecamera_parameters rot cam0) = 0.53
   \<and> distance_to_camera_estimate (run_onecamera_parameters rot cam0) = 10"
  by (simp add: run_onecamera_parameters_def run_onecamera_camera_def run_onecamera_lights_def
      set_camera_angles_def camera_angle_y_def camera_angle_z_def actual_camera_position_def
      wcs_offset_def vec3_add_def vec3_neg_def deg_to_rad_def)

text \<open>
  C6 as stated fails: the world offset of the harness is not zero, and the position that
  the camera is configured with is not (24.5, -35, 10).
\<close>

theorem C6_counterexample:
  "wcs_offset \<noteq> make_vec3 0 0 0
   \<and> vec3_add actual_camera_position wcs_offset \<noteq> make_vec3 24.5 (-35) 10"
  by (simp add: wcs_offset_def actual_camera_position_def vec3_neg_def vec3_add_def)

subsection \<open>Camera angles\<close>

text \<open>
  C7. After \<open>set_camera_angles\<close> with the angles \<open>ax\<close>, \<open>ay\<close>, \<open>az\<close> the getters
  \<open>camera_angle_y\<close> and \<open>camera_angle_z\<close> return \<open>ay\<close> and \<open>az\<close> themselves, for
  every composition \<open>rot\<close> of the angles into a matrix (also one from which the angles
  could not be recovered), and the cached rotation matrix is the one composed from the
  three angles, so that matrix and angles are consistent.
\<close>

theorem C7_camera_angle_roundtrip:
  "camera_angle_y (set_camera_angles rot ax ay az cam) = ay
   \<and> camera_angle_z (set_camera_angles rot ax ay az cam) = az
   \<and> rotation_matrix (set_camera_angles rot ax ay az cam) = rot ax ay az
   \<and> angles_consistent rot (set_camera_angles rot ax ay az cam)"
  by (simp add: camera_angle_y_def camera_angle_z_def rotation_matrix_def set_camera_angles_def
      angles_consistent_def)

subsection \<open>The pointer adapter\<close>

lemma push_back_pointers_rows:
  "rows_of h a = Some rows \<Longrightarrow> [] \<notin> set rows \<Longrightarrow> push_back_pointers h tmp a = Inr (tmp @ a)"
proof (induction a arbitrary: tmp rows)
  case Nil
  then show ?case by simp
next
  case (Cons row a)
  from Cons.prems(1) obtain xs rest where xs: "row_of h row = Some xs"
    and rest: "rows_of h a = Some rest" and rows: "rows = xs # rest"
    by (auto simp: rows_of_def split: option.splits)
  from xs have "live h row = Some (Doubles xs)"
    by (auto simp: row_of_def split: option.splits buffer.splits)
  moreover from Cons.prems(2) rows have "xs \<noteq> []" and "[] \<notin> set rest" by auto
  ultimately show ?case
    using Cons.IH [OF rest, of "tmp @ [row]"] by (simp add: first_element_def)
qed

lemma dangling_table:
  assumes "live h' variables = None"
  shows "read_pointer h' variables i = Inl DanglingPointer"
    and "six_variable_calibration_applicator rot h' parameters variables = Inl DanglingPointer"
  using assms
  by (simp_all add: six_variable_calibration_applicator_def read_variable_def read_pointer_def
      bind_result_def)

text \<open>
  C8 (the code departs from it). For every non-empty vector \<open>a\<close> of non-empty vectors
  \<open>vecvec_to_pointer_pointer\<close> returns, but the pointer it returns is the address of the
  buffer of its local vector \<open>tmp\<close>, which is released on return: the returned table is
  not alive, no entry of it can be read, and the applicator applied through the adapter
  (line 161 of the client) has undefined behaviour instead of reading the values
  \<open>calibration_result[i][0]\<close>.
\<close>

theorem C8_adapter_returns_dangling_table:
  assumes "rows_of h a = Some rows" and "a \<noteq> []" and "[] \<notin> set rows"
  shows "\<exists>h' variables.
           vecvec_to_pointer_pointer h a = Inr (h', variables)
         \<and> live h' variables = None
         \<and> read_pointer h' variables i = Inl DanglingPointer
         \<and> six_variable_calibration_applicator rot h' parameters variables = Inl DanglingPointer
         \<and> apply_calibration_result rot h parameters a = Inl DanglingPointer"
proof -
  define variables where "variables = next_free h"
  define h' where "h' = deallocate variables (fst (allocate (Pointers a) h))"
  have tmp: "push_back_pointers h [] a = Inr a"
    using push_back_pointers_rows [OF assms(1) assms(3), of "[]"] by simp
  have ret: "vecvec_to_pointer_pointer h a = Inr (h', variables)"
    using assms(2) by (simp add: vecvec_to_pointer_pointer_def tmp allocate_def h'_def variables_def)
  have dead: "live h' variables = None"
    by (simp add: h'_def deallocate_def allocate_def)
  note d = dangling_table [OF dead]
  have "apply_calibration_result rot h parameters a = Inl DanglingPointer"
    by (simp add: apply_calibration_result_def ret bind_result_def d)
  with ret dead d show ?thesis by blast
qed

text \<open>
  The theorem of C8 at a calibration result of six rows of one value each.
\<close>

theorem C8_adapter_returns_dangling_table_witness:
  "rows_of example_rows_heap [0, 1, 2, 3, 4, 5] = Some example_rows
   \<and> [0, 1, 2, 3, 4, 5] \<noteq> ([] :: addr list)
   \<and> [] \<notin> set example_rows
   \<and> apply_calibration_result calculate_rotation_matrix example_rows_heap example_base [0, 1, 2, 3, 4, 5]
       = Inl DanglingPointer"
proof -
  have rows: "rows_of example_rows_heap [0, 1, 2, 3, 4, 5] = Some example_rows"
    by (simp add: rows_of_def row_of_def example_rows_heap_def example_rows_def)
  have ne: "[0, 1, 2, 3, 4, 5] \<noteq> ([] :: addr list)" by simp
  have entries: "[] \<notin> set example_rows" by (simp add: example_rows_def)
  from C8_adapter_returns_dangling_table [OF rows ne entries, of 0 calculate_rotation_matrix example_base]
  have "apply_calibration_result calculate_rotation_matrix example_rows_heap example_base [0, 1, 2, 3, 4, 5]
       = Inl DanglingPointer" by blast
  with rows ne entries show ?thesis by blast
qed

subsection \<open>The unguarded division\<close>



subsection \<open>Screen and world coordinates\<close>




end
